theory Spec2Isabelle
  imports Main "HOL-Library.Finite_Map"
begin

section \<open>Values and documents of the rule language\<close>

text \<open>
  The security rules of \<^verbatim>\<open>firestore.rules\<close> are boolean expressions over two
  document snapshots: \<^verbatim>\<open>resource.data\<close> (the stored document) and
  \<^verbatim>\<open>request.resource.data\<close> (the document as the write would leave it).
  A document is a finite map from field names to values. The model has the kinds of
  values these rules can tell apart: null, booleans, integers, strings, timestamps,
  lists and nested maps. Strings are lists of characters and \<^verbatim>\<open>size()\<close> counts
  characters. Floating-point numbers are not modelled.
\<close>

datatype val =
    VNull
  | VBool bool
  | VInt int
  | VStr string
  | VTime int
  | VList "val list"
  | VMap "(string, val) fmap"

type_synonym doc = "(string, val) fmap"

record resource_t =
  data :: doc

record request_t =
  resource :: resource_t

text \<open>
  Evaluating an expression yields a value or fails (a missing field, a method of the
  wrong type). Failure is the result \<open>None\<close>.
\<close>

type_synonym 'a res = "'a option"

section \<open>Operators and methods\<close>

text \<open>
  \<^verbatim>\<open>a && b\<close> and \<^verbatim>\<open>a || b\<close> in the rule language: the side that decides the result
  wins, also when the other side fails to evaluate (\<open>false && error\<close> and
  \<open>error && false\<close> are false, \<open>true || error\<close> and \<open>error || true\<close> are true);
  otherwise a failure on either side is the result. A \<^verbatim>\<open>let\<close> binding stands for its
  expression, so a failed binding fails the result only where its value is needed.
\<close>

definition and_r :: "bool res \<Rightarrow> bool res \<Rightarrow> bool res" where
  "and_r a b =
     (if a = Some False \<or> b = Some False then Some False
      else if a = None \<or> b = None then None
      else Some True)"

definition or_r :: "bool res \<Rightarrow> bool res \<Rightarrow> bool res" where
  "or_r a b =
     (if a = Some True \<or> b = Some True then Some True
      else if a = None \<or> b = None then None
      else Some False)"

definition not_r :: "bool res \<Rightarrow> bool res" where
  "not_r a = (case a of None \<Rightarrow> None | Some x \<Rightarrow> Some (\<not> x))"

text \<open>\<^verbatim>\<open>x.f\<close>: the field \<open>f\<close> of a map; fails when \<open>x\<close> is no map or has no such key.\<close>

definition member :: "val res \<Rightarrow> string \<Rightarrow> val res" where
  "member x f = (case x of Some (VMap m) \<Rightarrow> fmlookup m f | _ \<Rightarrow> None)"

text \<open>\<^verbatim>\<open>x.keys()\<close>: the keys of a map, here as a set (the list methods used on it
  ignore order and repetition).\<close>

definition keys :: "val res \<Rightarrow> string set res" where
  "keys x = (case x of Some (VMap m) \<Rightarrow> Some (fmdom' m) | _ \<Rightarrow> None)"

definition hasAll :: "string set res \<Rightarrow> string list \<Rightarrow> bool res" where
  "hasAll ks xs = (case ks of None \<Rightarrow> None | Some K \<Rightarrow> Some (list_all (\<lambda>x. x \<in> K) xs))"

definition hasAny :: "string set res \<Rightarrow> string list \<Rightarrow> bool res" where
  "hasAny ks xs = (case ks of None \<Rightarrow> None | Some K \<Rightarrow> Some (list_ex (\<lambda>x. x \<in> K) xs))"

definition hasOnly :: "string set res \<Rightarrow> string list \<Rightarrow> bool res" where
  "hasOnly ks xs = (case ks of None \<Rightarrow> None | Some K \<Rightarrow> Some (K \<subseteq> set xs))"

text \<open>\<^verbatim>\<open>a == b\<close> on two values.\<close>

definition eq_r :: "val res \<Rightarrow> val res \<Rightarrow> bool res" where
  "eq_r a b = (case (a, b) of (Some x, Some y) \<Rightarrow> Some (x = y) | _ \<Rightarrow> None)"

definition str :: "string \<Rightarrow> val res" where
  "str s = Some (VStr s)"

text \<open>\<^verbatim>\<open>x is string\<close>, \<^verbatim>\<open>x is bool\<close>.\<close>

definition is_string :: "val res \<Rightarrow> bool res" where
  "is_string x = (case x of None \<Rightarrow> None | Some (VStr s) \<Rightarrow> Some True | Some _ \<Rightarrow> Some False)"

definition is_bool :: "val res \<Rightarrow> bool res" where
  "is_bool x = (case x of None \<Rightarrow> None | Some (VBool b) \<Rightarrow> Some True | Some _ \<Rightarrow> Some False)"

text \<open>\<^verbatim>\<open>x.size()\<close>: defined on strings, lists and maps.\<close>

definition size_r :: "val res \<Rightarrow> int res" where
  "size_r x =
     (case x of
        Some (VStr s) \<Rightarrow> Some (int (length s))
      | Some (VList vs) \<Rightarrow> Some (int (length vs))
      | Some (VMap m) \<Rightarrow> Some (int (fcard (fmdom m)))
      | _ \<Rightarrow> None)"

definition ge_r :: "int res \<Rightarrow> int \<Rightarrow> bool res" where
  "ge_r a n = (case a of None \<Rightarrow> None | Some k \<Rightarrow> Some (k \<ge> n))"

definition gt_r :: "int res \<Rightarrow> int \<Rightarrow> bool res" where
  "gt_r a n = (case a of None \<Rightarrow> None | Some k \<Rightarrow> Some (k > n))"

subsection \<open>Regular expressions of \<^verbatim>\<open>matches\<close>\<close>

text \<open>
  \<^verbatim>\<open>s.matches(re)\<close> matches the whole string against a regular expression. The
  patterns of the rules are built from literal characters, \<^verbatim>\<open>.\<close> (any character but
  a line feed) and the postfix \<^verbatim>\<open>*\<close>; \<open>rx_parse\<close> reads that fragment.
\<close>

datatype atom = AnyChar | Lit char

datatype piece = One atom | Many atom

definition atom_of :: "char \<Rightarrow> atom" where
  "atom_of c = (if c = CHR ''.'' then AnyChar else Lit c)"

fun rx_parse :: "string \<Rightarrow> piece list" where
  "rx_parse [] = []"
| "rx_parse [c] = [One (atom_of c)]"
| "rx_parse (c # d # cs) =
     (if d = CHR ''*'' then Many (atom_of c) # rx_parse cs
      else One (atom_of c) # rx_parse (d # cs))"

fun atom_ok :: "atom \<Rightarrow> char \<Rightarrow> bool" where
  "atom_ok AnyChar x = (x \<noteq> CHR 0x0A)"
| "atom_ok (Lit c) x = (x = c)"

fun rx_match :: "piece list \<Rightarrow> string \<Rightarrow> bool" where
  "rx_match [] s = (s = [])"
| "rx_match (One a # ps) [] = False"
| "rx_match (One a # ps) (x # xs) = (atom_ok a x \<and> rx_match ps xs)"
| "rx_match (Many a # ps) [] = rx_match ps []"
| "rx_match (Many a # ps) (x # xs) =
     (rx_match ps (x # xs) \<or> (atom_ok a x \<and> rx_match (Many a # ps) xs))"

definition matches :: "val res \<Rightarrow> string \<Rightarrow> bool res" where
  "matches x re =
     (case x of Some (VStr s) \<Rightarrow> Some (rx_match (rx_parse re) s) | _ \<Rightarrow> None)"

section \<open>The rules of \<^verbatim>\<open>contactSubmissions\<close>\<close>

text \<open>
  The helper functions of \<^verbatim>\<open>firestore.rules\<close>, lines 38 to 108, in the order of the
  file. \<open>allowedFields\<close> is the list bound by \<^verbatim>\<open>let\<close> in \<open>isOnboardingFieldsOnly\<close>.
\<close>

definition allowedFields :: "string list" where
  "allowedFields =
     [''name'', ''email'', ''status'', ''temporaryUserId'', ''temporaryPassword'',
      ''firstName'', ''lastName'', ''phone'', ''bio'', ''linkedin'',
      ''notificationPreferences'', ''onboardingProgress'', ''onboardingCompleted'',
      ''onboardingCompletedAt'', ''passwordUpdatedAt'', ''profileUpdatedAt'',
      ''submittedAt'', ''campusStatus'', ''companyName'', ''idea'']"

definition isOnboardingFieldsOnly :: "val res \<Rightarrow> bool res" where
  "isOnboardingFieldsOnly incomingDoc = hasOnly (keys incomingDoc) allowedFields"

definition isValidOnboardingData :: "val res \<Rightarrow> bool res" where
  "isValidOnboardingData incomingDoc =
     (let passwordValid =
            or_r (not_r (hasAny (keys incomingDoc) [''temporaryPassword'']))
                 (and_r (is_string (member incomingDoc ''temporaryPassword''))
                        (ge_r (size_r (member incomingDoc ''temporaryPassword'')) 6));
          profileValid =
            or_r (not_r (hasAny (keys incomingDoc) [''firstName'', ''lastName'']))
                 (and_r (and_r (and_r (is_string (member incomingDoc ''firstName''))
                                      (gt_r (size_r (member incomingDoc ''firstName'')) 0))
                               (is_string (member incomingDoc ''lastName'')))
                        (gt_r (size_r (member incomingDoc ''lastName'')) 0));
          linkedinValid =
            or_r (or_r (or_r (not_r (hasAny (keys incomingDoc) [''linkedin'']))
                             (eq_r (member incomingDoc ''linkedin'') (str '''')))
                       (matches (member incomingDoc ''linkedin'')
                                ''https://.*linkedin.com/.*''))
                 (matches (member incomingDoc ''linkedin'')
                          ''https://.*linkedin.com/in/.*'');
          notificationValid =
            or_r (not_r (hasAny (keys incomingDoc) [''notificationPreferences'']))
                 (and_r (hasAll (keys (member incomingDoc ''notificationPreferences''))
                                [''emailNotifications''])
                        (is_bool (member (member incomingDoc ''notificationPreferences'')
                                         ''emailNotifications'')))
      in and_r (and_r (and_r passwordValid profileValid) linkedinValid) notificationValid)"

definition isValidOnboardingUpdate :: "resource_t \<Rightarrow> request_t \<Rightarrow> bool res" where
  "isValidOnboardingUpdate existingData incomingRequest =
     (let existingDoc = Some (VMap (data existingData));
          incomingDoc = Some (VMap (data (resource incomingRequest)))
      in and_r (and_r (and_r (and_r (and_r
           (eq_r (member existingDoc ''status'') (str ''accepted''))
           (hasAll (keys incomingDoc) [''name'', ''email'', ''status'']))
           (eq_r (member incomingDoc ''email'') (member existingDoc ''email'')))
           (eq_r (member incomingDoc ''status'') (member existingDoc ''status'')))
           (isOnboardingFieldsOnly incomingDoc))
           (isValidOnboardingData incomingDoc))"

definition isAdminUpdate :: "request_t \<Rightarrow> bool res" where
  "isAdminUpdate incomingRequest =
     (let isStatusUpdate =
            hasAny (keys (Some (VMap (data (resource incomingRequest)))))
                   [''status'', ''processedByAdminAt''];
          isCredentialAssignment =
            and_r (hasAny (keys (Some (VMap (data (resource incomingRequest)))))
                          [''temporaryUserId'', ''temporaryPassword''])
                  (eq_r (member (Some (VMap (data (resource incomingRequest)))) ''status'')
                        (str ''accepted''))
      in or_r isStatusUpdate isCredentialAssignment)"

text \<open>
  The condition of \<^verbatim>\<open>allow update\<close> in \<^verbatim>\<open>match /contactSubmissions/{submissionId}\<close>.
  The statement grants the write when the condition evaluates to true; false and a
  failed evaluation both grant nothing. The last match of the file,
  \<^verbatim>\<open>/{document=**}\<close> with \<^verbatim>\<open>allow read, write: if true\<close>, is a statement of its own
  and no part of this condition.
\<close>

definition contactSubmissions_update :: "resource_t \<Rightarrow> request_t \<Rightarrow> bool res" where
  "contactSubmissions_update rsrc req =
     or_r (isValidOnboardingUpdate rsrc req) (isAdminUpdate req)"

definition grants :: "bool res \<Rightarrow> bool" where
  "grants r = (r = Some True)"

text \<open>The stored snapshot and the write that carry a given document.\<close>

definition stored :: "doc \<Rightarrow> resource_t" where
  "stored d = \<lparr> data = d \<rparr>"

definition write_of :: "doc \<Rightarrow> request_t" where
  "write_of d = \<lparr> resource = \<lparr> data = d \<rparr> \<rparr>"

section \<open>The onboarding contract, as the specification words it\<close>

text \<open>
  The conditions under which the specification says an onboarding update is approved,
  written as predicates on the stored document \<open>e\<close> and the incoming document \<open>i\<close>.
  A missing field is the lookup result \<open>None\<close>, so "unchanged" compares lookups.
\<close>

definition nonempty_string :: "val option \<Rightarrow> bool" where
  "nonempty_string x = (case x of Some (VStr s) \<Rightarrow> s \<noteq> [] | _ \<Rightarrow> False)"

definition spec_password_ok :: "doc \<Rightarrow> bool" where
  "spec_password_ok i =
     (''temporaryPassword'' \<in> fmdom' i \<longrightarrow>
        (case fmlookup i ''temporaryPassword'' of Some (VStr s) \<Rightarrow> 6 \<le> length s | _ \<Rightarrow> False))"

definition spec_profile_ok :: "doc \<Rightarrow> bool" where
  "spec_profile_ok i =
     (''firstName'' \<in> fmdom' i \<or> ''lastName'' \<in> fmdom' i \<longrightarrow>
        nonempty_string (fmlookup i ''firstName'') \<and> nonempty_string (fmlookup i ''lastName''))"

definition spec_linkedin_ok :: "doc \<Rightarrow> bool" where
  "spec_linkedin_ok i =
     (''linkedin'' \<in> fmdom' i \<longrightarrow>
        (case fmlookup i ''linkedin'' of
           Some (VStr s) \<Rightarrow>
             s = [] \<or> rx_match (rx_parse ''https://.*linkedin.com/.*'') s
                    \<or> rx_match (rx_parse ''https://.*linkedin.com/in/.*'') s
         | _ \<Rightarrow> False))"

definition spec_notification_ok :: "doc \<Rightarrow> bool" where
  "spec_notification_ok i =
     (''notificationPreferences'' \<in> fmdom' i \<longrightarrow>
        (case fmlookup i ''notificationPreferences'' of
           Some (VMap np) \<Rightarrow>
             (case fmlookup np ''emailNotifications'' of Some (VBool b) \<Rightarrow> True | _ \<Rightarrow> False)
         | _ \<Rightarrow> False))"

definition spec_onboarding_contract :: "doc \<Rightarrow> doc \<Rightarrow> bool" where
  "spec_onboarding_contract e i =
     (fmlookup e ''status'' = Some (VStr ''accepted'') \<and>
      fmdom' i \<subseteq> set allowedFields \<and>
      fmlookup i ''email'' = fmlookup e ''email'' \<and>
      fmlookup i ''status'' = fmlookup e ''status'' \<and>
      spec_password_ok i \<and> spec_profile_ok i \<and> spec_linkedin_ok i \<and>
      spec_notification_ok i)"

section \<open>Example documents\<close>

text \<open>
  Concrete stored documents and incoming documents at which the predicates are
  evaluated below.
\<close>

definition accepted_doc :: doc where
  "accepted_doc = fmap_of_list
     [(''name'', VStr ''J Doe''), (''email'', VStr ''jdoe@example.com''),
      (''status'', VStr ''accepted'')]"

definition pending_doc :: doc where
  "pending_doc = fmap_of_list
     [(''name'', VStr ''J Doe''), (''email'', VStr ''jdoe@example.com''),
      (''status'', VStr ''pending'')]"

definition profile_update :: doc where
  "profile_update = fmap_of_list
     [(''name'', VStr ''J Doe''), (''email'', VStr ''jdoe@example.com''),
      (''status'', VStr ''accepted''), (''firstName'', VStr ''J''),
      (''lastName'', VStr ''Doe''), (''phone'', VStr ''555''),
      (''notificationPreferences'', VMap (fmap_of_list [(''emailNotifications'', VBool True)]))]"

definition nameless_update :: doc where
  "nameless_update = fmap_of_list
     [(''email'', VStr ''jdoe@example.com''), (''status'', VStr ''accepted'')]"


definition status_only_update :: doc where
  "status_only_update = fmap_of_list
     [(''name'', VStr ''J Doe''), (''email'', VStr ''jdoe@example.com''),
      (''status'', VStr ''pending'')]"

definition phone_update :: doc where
  "phone_update = fmap_of_list [(''name'', VStr ''J Doe''), (''phone'', VStr ''555'')]"

definition odd_update :: doc where
  "odd_update = fmap_of_list
     [(''status'', VStr ''banana''), (''role'', VStr ''admin''),
      (''temporaryPassword'', VStr ''x'')]"

definition email_change :: doc where
  "email_change = fmap_of_list
     [(''name'', VStr ''J Doe''), (''email'', VStr ''mallory@example.com''),
      (''status'', VStr ''accepted'')]"

definition credential_update :: doc where
  "credential_update = fmap_of_list
     [(''status'', VStr ''accepted''), (''temporaryUserId'', VStr ''u1''),
      (''temporaryPassword'', VStr ''abc'')]"

definition short_password_update :: doc where
  "short_password_update = fmupd ''temporaryPassword'' (VStr ''abc'') profile_update"

definition example_com_update :: doc where
  "example_com_update = fmupd ''linkedin'' (VStr ''https://example.com'') profile_update"

definition extra_field_update :: doc where
  "extra_field_update = fmupd ''role'' (VStr ''admin'') profile_update"

section \<open>Facts about the operators\<close>

lemma grants_and: "grants (and_r a b) \<longleftrightarrow> grants a \<and> grants b"
  by (cases a; cases b) (auto simp: and_r_def grants_def)

lemma grants_or: "grants (or_r a b) \<longleftrightarrow> grants a \<or> grants b"
  by (cases a; cases b) (auto simp: or_r_def grants_def)

lemma grants_not: "grants (not_r a) \<longleftrightarrow> a = Some False"
  by (cases a) (auto simp: not_r_def grants_def)

lemma and_r_False: "and_r a b = Some False \<longleftrightarrow> a = Some False \<or> b = Some False"
  by (cases a; cases b) (auto simp: and_r_def)

lemma keys_doc: "keys (Some (VMap m)) = Some (fmdom' m)"
  by (simp add: keys_def)

lemma member_doc: "member (Some (VMap m)) f = fmlookup m f"
  by (simp add: member_def)

lemma grants_hasAll: "grants (hasAll (Some K) xs) \<longleftrightarrow> set xs \<subseteq> K"
  by (auto simp: hasAll_def grants_def list_all_iff)

lemma grants_hasAny: "grants (hasAny (Some K) xs) \<longleftrightarrow> set xs \<inter> K \<noteq> {}"
  by (auto simp: hasAny_def grants_def list_ex_iff)

lemma hasAny_False: "hasAny (Some K) xs = Some False \<longleftrightarrow> set xs \<inter> K = {}"
  by (auto simp: hasAny_def list_ex_iff)

lemma grants_hasOnly: "grants (hasOnly (Some K) xs) \<longleftrightarrow> K \<subseteq> set xs"
  by (auto simp: hasOnly_def grants_def)

lemma grants_eq_r: "grants (eq_r a b) \<longleftrightarrow> a \<noteq> None \<and> a = b"
  by (cases a; cases b) (auto simp: eq_r_def grants_def)

section \<open>What each predicate grants\<close>

lemma passwordValid_iff:
  "grants (or_r (not_r (hasAny (keys (Some (VMap i))) [''temporaryPassword'']))
                 (and_r (is_string (member (Some (VMap i)) ''temporaryPassword''))
                        (ge_r (size_r (member (Some (VMap i)) ''temporaryPassword'')) 6)))
   \<longleftrightarrow> spec_password_ok i"
  unfolding grants_or grants_and grants_not keys_doc member_doc hasAny_False
  by (auto simp: spec_password_ok_def grants_def is_string_def ge_r_def size_r_def
        fmlookup_dom'_iff split: option.splits val.splits)

lemma profileValid_iff:
  "grants (or_r (not_r (hasAny (keys (Some (VMap i))) [''firstName'', ''lastName'']))
                 (and_r (and_r (and_r (is_string (member (Some (VMap i)) ''firstName''))
                                      (gt_r (size_r (member (Some (VMap i)) ''firstName'')) 0))
                               (is_string (member (Some (VMap i)) ''lastName'')))
                        (gt_r (size_r (member (Some (VMap i)) ''lastName'')) 0)))
   \<longleftrightarrow> spec_profile_ok i"
  unfolding grants_or grants_and grants_not keys_doc member_doc hasAny_False
  by (auto simp: spec_profile_ok_def nonempty_string_def grants_def is_string_def gt_r_def
        size_r_def fmlookup_dom'_iff split: option.splits val.splits)

lemma linkedinValid_iff:
  "grants (or_r (or_r (or_r (not_r (hasAny (keys (Some (VMap i))) [''linkedin'']))
                             (eq_r (member (Some (VMap i)) ''linkedin'') (str '''')))
                       (matches (member (Some (VMap i)) ''linkedin'')
                                ''https://.*linkedin.com/.*''))
                 (matches (member (Some (VMap i)) ''linkedin'')
                          ''https://.*linkedin.com/in/.*''))
   \<longleftrightarrow> spec_linkedin_ok i"
  unfolding grants_or grants_not keys_doc member_doc hasAny_False spec_linkedin_ok_def
    grants_eq_r
  by (auto simp: grants_def matches_def str_def fmlookup_dom'_iff
        split: option.splits val.splits)

lemma notificationValid_iff:
  "grants (or_r (not_r (hasAny (keys (Some (VMap i))) [''notificationPreferences'']))
                 (and_r (hasAll (keys (member (Some (VMap i)) ''notificationPreferences''))
                                [''emailNotifications''])
                        (is_bool (member (member (Some (VMap i)) ''notificationPreferences'')
                                         ''emailNotifications''))))
   \<longleftrightarrow> spec_notification_ok i"
  unfolding grants_or grants_and grants_not keys_doc member_doc hasAny_False
  by (auto simp: spec_notification_ok_def grants_def is_bool_def hasAll_def keys_def
        member_def fmlookup_dom'_iff split: option.splits val.splits)

lemma isValidOnboardingData_iff:
  "grants (isValidOnboardingData (Some (VMap i))) \<longleftrightarrow>
     spec_password_ok i \<and> spec_profile_ok i \<and> spec_linkedin_ok i \<and> spec_notification_ok i"
  unfolding isValidOnboardingData_def Let_def grants_and
    passwordValid_iff profileValid_iff linkedinValid_iff notificationValid_iff
  by simp

lemma stored_data: "data (stored e) = e"
  by (simp add: stored_def)

lemma write_of_data: "data (resource (write_of i)) = i"
  by (simp add: write_of_def)

lemma onboarding_grants_iff:
  "grants (isValidOnboardingUpdate (stored e) (write_of i)) \<longleftrightarrow>
     fmlookup e ''status'' = Some (VStr ''accepted'') \<and>
     {''name'', ''email'', ''status''} \<subseteq> fmdom' i \<and>
     fmlookup i ''email'' = fmlookup e ''email'' \<and>
     fmlookup i ''status'' = fmlookup e ''status'' \<and>
     fmdom' i \<subseteq> set allowedFields \<and>
     spec_password_ok i \<and> spec_profile_ok i \<and> spec_linkedin_ok i \<and>
     spec_notification_ok i"
  unfolding isValidOnboardingUpdate_def Let_def stored_data write_of_data grants_and
    isValidOnboardingData_iff isOnboardingFieldsOnly_def keys_doc member_doc
    grants_hasAll grants_hasOnly grants_eq_r str_def
  by (auto simp: fmlookup_dom'_iff)

lemma admin_grants_iff:
  "grants (isAdminUpdate (write_of i)) \<longleftrightarrow>
     (''status'' \<in> fmdom' i \<or> ''processedByAdminAt'' \<in> fmdom' i) \<or>
     ((''temporaryUserId'' \<in> fmdom' i \<or> ''temporaryPassword'' \<in> fmdom' i) \<and>
      fmlookup i ''status'' = Some (VStr ''accepted''))"
  unfolding isAdminUpdate_def Let_def write_of_data grants_or grants_and keys_doc member_doc
    grants_hasAny grants_eq_r str_def
  by auto

lemma update_grants_iff:
  "grants (contactSubmissions_update (stored e) (write_of i)) \<longleftrightarrow>
     ''status'' \<in> fmdom' i \<or> ''processedByAdminAt'' \<in> fmdom' i"
  unfolding contactSubmissions_update_def grants_or onboarding_grants_iff admin_grants_iff
  by (auto simp: fmlookup_dom'_iff)

lemma onboarding_False_without_core:
  "\<not> {''name'', ''email'', ''status''} \<subseteq> fmdom' i \<Longrightarrow>
     isValidOnboardingUpdate (stored e) (write_of i) = Some False"
  unfolding isValidOnboardingUpdate_def Let_def and_r_False write_of_data keys_doc
  by (auto simp: hasAll_def)

text \<open>Every stored snapshot and every write is one of those the theorems speak about.\<close>

lemma stored_all: "stored (data r) = r"
  by (simp add: stored_def)

lemma write_of_all: "write_of (data (resource q)) = q"
  by (simp add: write_of_def)

section \<open>Setting one field of an update\<close>

text \<open>
  The check of one field does not look at the others: setting a field \<open>k\<close> leaves
  the checks of the other fields as they are without \<open>k\<close>.
\<close>

lemma spec_password_ok_other:
  "k \<noteq> ''temporaryPassword'' \<Longrightarrow>
     spec_password_ok (fmupd k v i) = spec_password_ok (fmdrop k i)"
  by (simp add: spec_password_ok_def)

lemma spec_profile_ok_other:
  "k \<noteq> ''firstName'' \<Longrightarrow> k \<noteq> ''lastName'' \<Longrightarrow>
     spec_profile_ok (fmupd k v i) = spec_profile_ok (fmdrop k i)"
  by (simp add: spec_profile_ok_def)

lemma spec_linkedin_ok_other:
  "k \<noteq> ''linkedin'' \<Longrightarrow>
     spec_linkedin_ok (fmupd k v i) = spec_linkedin_ok (fmdrop k i)"
  by (simp add: spec_linkedin_ok_def del: rx_parse.simps rx_match.simps)

lemma spec_notification_ok_other:
  "k \<noteq> ''notificationPreferences'' \<Longrightarrow>
     spec_notification_ok (fmupd k v i) = spec_notification_ok (fmdrop k i)"
  by (simp add: spec_notification_ok_def)

lemma spec_password_upd:
  "spec_password_ok (fmupd ''temporaryPassword'' (VStr s) i) \<longleftrightarrow> 6 \<le> length s"
  by (simp add: spec_password_ok_def)

lemma spec_linkedin_upd:
  "spec_linkedin_ok (fmupd ''linkedin'' (VStr s) i) \<longleftrightarrow>
     s = [] \<or> rx_match (rx_parse ''https://.*linkedin.com/.*'') s
            \<or> rx_match (rx_parse ''https://.*linkedin.com/in/.*'') s"
  by (simp add: spec_linkedin_ok_def del: rx_parse.simps rx_match.simps)

lemma onboarding_upd_iff:
  assumes "k \<in> set allowedFields"
    and "k \<notin> {''name'', ''email'', ''status''}"
    and "grants (isValidOnboardingUpdate (stored e) (write_of (fmdrop k i)))"
  shows "grants (isValidOnboardingUpdate (stored e) (write_of (fmupd k v i))) \<longleftrightarrow>
           spec_password_ok (fmupd k v i) \<and> spec_profile_ok (fmupd k v i) \<and>
           spec_linkedin_ok (fmupd k v i) \<and> spec_notification_ok (fmupd k v i)"
  using assms unfolding onboarding_grants_iff by auto

lemma status_kept:
  assumes "grants (isValidOnboardingUpdate (stored e) (write_of (fmdrop k i)))"
  shows "grants (contactSubmissions_update (stored e) (write_of (fmupd k v i)))"
  using assms unfolding onboarding_grants_iff update_grants_iff by auto

section \<open>The onboarding update predicate\<close>

text \<open>
  C1. The claim: \<open>isValidOnboardingUpdate\<close> approves an update if and only if the seven
  conditions of the onboarding contract hold (\<open>spec_onboarding_contract\<close>). The code
  asks for one thing more, \<^verbatim>\<open>incomingDoc.keys().hasAll(['name', 'email', 'status'])\<close>.
  As amended: \<open>isValidOnboardingUpdate\<close> approves the update if and only if the incoming
  field set contains \<open>name\<close>, \<open>email\<close> and \<open>status\<close> and the seven conditions hold.
\<close>

theorem onboarding_update_iff_contract:
  "grants (isValidOnboardingUpdate (stored e) (write_of i)) \<longleftrightarrow>
     {''name'', ''email'', ''status''} \<subseteq> fmdom' i \<and> spec_onboarding_contract e i"
  unfolding onboarding_grants_iff spec_onboarding_contract_def by blast

text \<open>At an accepted submission and a profile update that meet the contract.\<close>

theorem onboarding_update_iff_contract_witness:
  "{''name'', ''email'', ''status''} \<subseteq> fmdom' profile_update \<and>
   spec_onboarding_contract accepted_doc profile_update \<and>
   grants (isValidOnboardingUpdate (stored accepted_doc) (write_of profile_update))"
proof -
  have k: "{''name'', ''email'', ''status''} \<subseteq> fmdom' profile_update"
    by code_simp
  have c: "spec_onboarding_contract accepted_doc profile_update"
    by code_simp
  show ?thesis
    using k c onboarding_update_iff_contract [of accepted_doc profile_update] by simp
qed

text \<open>
  The claim as stated fails: an update with only \<open>email\<close> and \<open>status\<close>, both as
  stored, meets the seven conditions and is not approved.
\<close>

theorem contract_without_name_counterexample:
  "spec_onboarding_contract accepted_doc nameless_update \<and>
   \<not> grants (isValidOnboardingUpdate (stored accepted_doc) (write_of nameless_update))"
  by code_simp

text \<open>
  C9. \<open>isValidOnboardingUpdate\<close> returns true only if the incoming field set contains
  \<open>name\<close>, \<open>email\<close> and \<open>status\<close>; when one of the three is missing it returns false,
  whatever else holds.
\<close>

theorem onboarding_needs_name_email_status:
  "(grants (isValidOnboardingUpdate (stored e) (write_of i)) \<longrightarrow>
      {''name'', ''email'', ''status''} \<subseteq> fmdom' i) \<and>
   (\<not> {''name'', ''email'', ''status''} \<subseteq> fmdom' i \<longrightarrow>
      isValidOnboardingUpdate (stored e) (write_of i) = Some False)"
  using onboarding_False_without_core [of i e] onboarding_grants_iff [of e i] by blast

text \<open>
  An approved update has the three fields; an update without \<open>name\<close> that meets the
  contract of the specification evaluates to false.
\<close>

theorem onboarding_needs_name_email_status_witness:
  "grants (isValidOnboardingUpdate (stored accepted_doc) (write_of profile_update)) \<and>
   {''name'', ''email'', ''status''} \<subseteq> fmdom' profile_update \<and>
   \<not> {''name'', ''email'', ''status''} \<subseteq> fmdom' nameless_update \<and>
   spec_onboarding_contract accepted_doc nameless_update \<and>
   isValidOnboardingUpdate (stored accepted_doc) (write_of nameless_update) = Some False"
proof -
  have a: "grants (isValidOnboardingUpdate (stored accepted_doc) (write_of profile_update))"
    by code_simp
  have b: "\<not> {''name'', ''email'', ''status''} \<subseteq> fmdom' nameless_update"
    by code_simp
  have c: "spec_onboarding_contract accepted_doc nameless_update"
    by code_simp
  show ?thesis
    using a b c onboarding_needs_name_email_status [of accepted_doc profile_update]
      onboarding_needs_name_email_status [of accepted_doc nameless_update]
    by simp
qed

section \<open>The admin update predicate and the update rule\<close>

text \<open>
  C5. \<open>isAdminUpdate\<close> returns true if and only if the incoming field set meets
  \<open>{status, processedByAdminAt}\<close>, or it meets \<open>{temporaryUserId, temporaryPassword}\<close>
  and the incoming \<open>status\<close> is \<open>accepted\<close>. In particular a write that sets \<open>status\<close>
  to \<open>accepted\<close> together with \<open>temporaryUserId\<close> or \<open>temporaryPassword\<close> is approved
  by the update rule of \<open>contactSubmissions\<close>, whatever the stored document is.
\<close>

theorem isAdminUpdate_iff:
  "(grants (isAdminUpdate (write_of i)) \<longleftrightarrow>
      (''status'' \<in> fmdom' i \<or> ''processedByAdminAt'' \<in> fmdom' i) \<or>
      ((''temporaryUserId'' \<in> fmdom' i \<or> ''temporaryPassword'' \<in> fmdom' i) \<and>
       fmlookup i ''status'' = Some (VStr ''accepted''))) \<and>
   (fmlookup i ''status'' = Some (VStr ''accepted'') \<and>
    (''temporaryUserId'' \<in> fmdom' i \<or> ''temporaryPassword'' \<in> fmdom' i) \<longrightarrow>
      grants (contactSubmissions_update (stored e) (write_of i)))"
  by (auto simp: admin_grants_iff update_grants_iff fmlookup_dom'_iff)

text \<open>
  A credential assignment on a pending submission: no valid onboarding update, and
  approved.
\<close>

theorem isAdminUpdate_iff_witness:
  "fmlookup credential_update ''status'' = Some (VStr ''accepted'') \<and>
   ''temporaryUserId'' \<in> fmdom' credential_update \<and>
   \<not> grants (isValidOnboardingUpdate (stored pending_doc) (write_of credential_update)) \<and>
   grants (isAdminUpdate (write_of credential_update)) \<and>
   grants (contactSubmissions_update (stored pending_doc) (write_of credential_update))"
proof -
  have a: "fmlookup credential_update ''status'' = Some (VStr ''accepted'')"
    by code_simp
  have b: "''temporaryUserId'' \<in> fmdom' credential_update"
    by code_simp
  have c: "\<not> grants (isValidOnboardingUpdate (stored pending_doc) (write_of credential_update))"
    by code_simp
  show ?thesis
    using a b c isAdminUpdate_iff [of credential_update pending_doc] by simp
qed

text \<open>
  C3. Every incoming update whose field set contains \<open>status\<close> or
  \<open>processedByAdminAt\<close> is approved by the update rule, whatever the stored document
  and whatever the incoming values.
\<close>

theorem status_update_always_granted:
  "''status'' \<in> fmdom' i \<or> ''processedByAdminAt'' \<in> fmdom' i \<Longrightarrow>
     grants (contactSubmissions_update (stored e) (write_of i))"
  by (simp add: update_grants_iff)

text \<open>
  On an empty stored document, with a status outside the enumeration, a field outside
  the allow-list and a one-character password.
\<close>

theorem status_update_always_granted_witness:
  "''status'' \<in> fmdom' odd_update \<and>
   fmlookup odd_update ''status'' = Some (VStr ''banana'') \<and>
   \<not> fmdom' odd_update \<subseteq> set allowedFields \<and>
   fmlookup odd_update ''temporaryPassword'' = Some (VStr ''x'') \<and>
   grants (contactSubmissions_update (stored fmempty) (write_of odd_update))"
proof -
  have a: "''status'' \<in> fmdom' odd_update"
    by code_simp
  have b: "fmlookup odd_update ''status'' = Some (VStr ''banana'') \<and>
           \<not> fmdom' odd_update \<subseteq> set allowedFields \<and>
           fmlookup odd_update ''temporaryPassword'' = Some (VStr ''x'')"
    by code_simp
  show ?thesis
    using a b status_update_always_granted [OF disjI1 [OF a], of fmempty] by simp
qed

section \<open>Updates that the onboarding predicate turns down\<close>

text \<open>
  C2. The claim: when the stored status is not \<open>accepted\<close>, the update rule denies
  every update whose fields lie within the onboarding allow-list. The rule is the
  disjunction with \<open>isAdminUpdate\<close>, and \<open>status\<close> is itself in the allow-list.
  As amended: for every stored document whose status is not \<open>accepted\<close> and every
  incoming update whose fields lie within the allow-list, \<open>isValidOnboardingUpdate\<close>
  does not approve the update, and the update rule denies it exactly when the incoming
  field set does not contain \<open>status\<close>.
\<close>

theorem not_accepted_onboarding_fields:
  assumes "fmlookup e ''status'' \<noteq> Some (VStr ''accepted'')"
    and "fmdom' i \<subseteq> set allowedFields"
  shows "\<not> grants (isValidOnboardingUpdate (stored e) (write_of i)) \<and>
         (grants (contactSubmissions_update (stored e) (write_of i)) \<longleftrightarrow>
            ''status'' \<in> fmdom' i)"
proof -
  have "''processedByAdminAt'' \<notin> set allowedFields"
    by (simp add: allowedFields_def)
  with assms(2) have "''processedByAdminAt'' \<notin> fmdom' i"
    by blast
  with assms(1) show ?thesis
    by (simp add: onboarding_grants_iff update_grants_iff)
qed

text \<open>A pending submission and an update of \<open>name\<close> and \<open>phone\<close>: denied.\<close>

theorem not_accepted_onboarding_fields_witness:
  "fmlookup pending_doc ''status'' \<noteq> Some (VStr ''accepted'') \<and>
   fmdom' phone_update \<subseteq> set allowedFields \<and>
   ''status'' \<notin> fmdom' phone_update \<and>
   \<not> grants (isValidOnboardingUpdate (stored pending_doc) (write_of phone_update)) \<and>
   \<not> grants (contactSubmissions_update (stored pending_doc) (write_of phone_update))"
proof -
  have a: "fmlookup pending_doc ''status'' \<noteq> Some (VStr ''accepted'')"
    by code_simp
  have b: "fmdom' phone_update \<subseteq> set allowedFields"
    by code_simp
  have c: "''status'' \<notin> fmdom' phone_update"
    by code_simp
  show ?thesis
    using a b c not_accepted_onboarding_fields [OF a b] by simp
qed

text \<open>
  The claim as stated fails: on a pending submission, an update of \<open>name\<close>, \<open>email\<close>
  and \<open>status\<close> lies within the allow-list and is approved.
\<close>

theorem not_accepted_update_granted_counterexample:
  "fmlookup pending_doc ''status'' \<noteq> Some (VStr ''accepted'') \<and>
   fmdom' status_only_update \<subseteq> set allowedFields \<and>
   grants (contactSubmissions_update (stored pending_doc) (write_of status_only_update))"
  by code_simp

text \<open>
  C4. The claim: on an accepted submission, the update rule denies every update whose
  \<open>email\<close> or \<open>status\<close> differs from the stored one. As amended: on an accepted
  submission, \<open>isValidOnboardingUpdate\<close> does not approve an update whose \<open>email\<close> or
  \<open>status\<close> differs from the stored one, so both are unchanged across every update
  that predicate approves; the update rule approves such an update exactly when its
  field set contains \<open>status\<close> or \<open>processedByAdminAt\<close>.
\<close>

theorem accepted_core_fields_unchanged:
  assumes "fmlookup e ''status'' = Some (VStr ''accepted'')"
    and "fmlookup i ''email'' \<noteq> fmlookup e ''email'' \<or>
         fmlookup i ''status'' \<noteq> fmlookup e ''status''"
  shows "\<not> grants (isValidOnboardingUpdate (stored e) (write_of i)) \<and>
         (grants (contactSubmissions_update (stored e) (write_of i)) \<longleftrightarrow>
            ''status'' \<in> fmdom' i \<or> ''processedByAdminAt'' \<in> fmdom' i)"
  using assms(2) by (auto simp: onboarding_grants_iff update_grants_iff)

text \<open>An accepted submission and an update that changes the email.\<close>

theorem accepted_core_fields_unchanged_witness:
  "fmlookup accepted_doc ''status'' = Some (VStr ''accepted'') \<and>
   fmlookup email_change ''email'' \<noteq> fmlookup accepted_doc ''email'' \<and>
   \<not> grants (isValidOnboardingUpdate (stored accepted_doc) (write_of email_change))"
proof -
  have a: "fmlookup accepted_doc ''status'' = Some (VStr ''accepted'')"
    by code_simp
  have b: "fmlookup email_change ''email'' \<noteq> fmlookup accepted_doc ''email''"
    by code_simp
  show ?thesis
    using a b accepted_core_fields_unchanged [OF a disjI1 [OF b]] by simp
qed

text \<open>The claim as stated fails: the same update is approved by the update rule.\<close>

theorem email_change_granted_counterexample:
  "fmlookup accepted_doc ''status'' = Some (VStr ''accepted'') \<and>
   fmlookup email_change ''email'' \<noteq> fmlookup accepted_doc ''email'' \<and>
   grants (contactSubmissions_update (stored accepted_doc) (write_of email_change))"
  by code_simp

text \<open>
  C8. The claim: the update rule rejects every update with a field outside the
  allow-list of \<open>isOnboardingFieldsOnly\<close>. As amended: \<open>isValidOnboardingUpdate\<close> does
  not approve an update with a field outside the allow-list; the update rule approves
  such an update exactly when its field set contains \<open>status\<close> or
  \<open>processedByAdminAt\<close>.
\<close>

theorem field_outside_allow_list:
  assumes "\<not> fmdom' i \<subseteq> set allowedFields"
  shows "\<not> grants (isValidOnboardingUpdate (stored e) (write_of i)) \<and>
         (grants (contactSubmissions_update (stored e) (write_of i)) \<longleftrightarrow>
            ''status'' \<in> fmdom' i \<or> ''processedByAdminAt'' \<in> fmdom' i)"
  using assms by (simp add: onboarding_grants_iff update_grants_iff)

text \<open>An update with the field \<open>role\<close> and without \<open>status\<close>: denied.\<close>

theorem field_outside_allow_list_witness:
  "\<not> fmdom' (fmdrop ''status'' extra_field_update) \<subseteq> set allowedFields \<and>
   \<not> grants (isValidOnboardingUpdate (stored accepted_doc)
               (write_of (fmdrop ''status'' extra_field_update))) \<and>
   \<not> grants (contactSubmissions_update (stored accepted_doc)
               (write_of (fmdrop ''status'' extra_field_update)))"
proof -
  have a: "\<not> fmdom' (fmdrop ''status'' extra_field_update) \<subseteq> set allowedFields"
    by code_simp
  have b: "''status'' \<notin> fmdom' (fmdrop ''status'' extra_field_update) \<and>
           ''processedByAdminAt'' \<notin> fmdom' (fmdrop ''status'' extra_field_update)"
    by code_simp
  show ?thesis
    using a b field_outside_allow_list [OF a, of accepted_doc] by simp
qed

text \<open>
  The claim as stated fails: a valid profile update with the extra field \<open>role\<close> is
  approved by the update rule.
\<close>

theorem extra_field_granted_counterexample:
  "\<not> fmdom' extra_field_update \<subseteq> set allowedFields \<and>
   grants (isValidOnboardingUpdate (stored accepted_doc)
             (write_of (fmdrop ''role'' extra_field_update))) \<and>
   grants (contactSubmissions_update (stored accepted_doc) (write_of extra_field_update))"
  by code_simp

section \<open>Password and LinkedIn checks\<close>

text \<open>
  C6. The claim: with every other field meeting its constraints on an accepted
  submission, the update rule rejects a \<open>temporaryPassword\<close> shorter than 6
  characters and accepts one of at least 6. As amended: under the same conditions,
  \<open>isValidOnboardingUpdate\<close> approves the update if and only if the
  \<open>temporaryPassword\<close> string has at least 6 characters, and the update rule accepts
  the write for either length. "Every other field meets its constraints" is: the
  update without \<open>temporaryPassword\<close> is approved by \<open>isValidOnboardingUpdate\<close>.
\<close>

theorem temporaryPassword_length:
  assumes "grants (isValidOnboardingUpdate (stored e)
                     (write_of (fmdrop ''temporaryPassword'' i)))"
  shows "(grants (isValidOnboardingUpdate (stored e)
                    (write_of (fmupd ''temporaryPassword'' (VStr s) i))) \<longleftrightarrow>
            6 \<le> length s) \<and>
         grants (contactSubmissions_update (stored e)
                   (write_of (fmupd ''temporaryPassword'' (VStr s) i)))"
proof -
  let ?k = "''temporaryPassword''"
  let ?j = "fmupd ?k (VStr s) i"
  have k: "?k \<in> set allowedFields" "?k \<notin> {''name'', ''email'', ''status''}"
    by (simp_all add: allowedFields_def)
  from assms have base:
    "spec_profile_ok (fmdrop ?k i)" "spec_linkedin_ok (fmdrop ?k i)"
    "spec_notification_ok (fmdrop ?k i)"
    unfolding onboarding_grants_iff by blast+
  then have rest: "spec_profile_ok ?j" "spec_linkedin_ok ?j" "spec_notification_ok ?j"
    by (simp_all add: spec_profile_ok_other spec_linkedin_ok_other
          spec_notification_ok_other)
  have "grants (isValidOnboardingUpdate (stored e) (write_of ?j)) \<longleftrightarrow> 6 \<le> length s"
    unfolding onboarding_upd_iff [OF k assms] spec_password_upd using rest by blast
  then show ?thesis
    using status_kept [OF assms] by blast
qed

text \<open>The passwords \<open>abc\<close> and \<open>abcdef\<close> on a valid profile update.\<close>

theorem temporaryPassword_length_witness:
  "grants (isValidOnboardingUpdate (stored accepted_doc)
             (write_of (fmdrop ''temporaryPassword'' profile_update))) \<and>
   \<not> grants (isValidOnboardingUpdate (stored accepted_doc)
               (write_of (fmupd ''temporaryPassword'' (VStr ''abc'') profile_update))) \<and>
   grants (isValidOnboardingUpdate (stored accepted_doc)
             (write_of (fmupd ''temporaryPassword'' (VStr ''abcdef'') profile_update)))"
proof -
  have a: "grants (isValidOnboardingUpdate (stored accepted_doc)
                     (write_of (fmdrop ''temporaryPassword'' profile_update)))"
    by code_simp
  show ?thesis
    using a temporaryPassword_length [OF a, of "''abc''"]
      temporaryPassword_length [OF a, of "''abcdef''"]
    by simp
qed

text \<open>
  The claim as stated fails: the update rule approves the valid profile update with
  the password \<open>abc\<close>.
\<close>

theorem short_password_granted_counterexample:
  "grants (isValidOnboardingUpdate (stored accepted_doc)
             (write_of (fmdrop ''temporaryPassword'' short_password_update))) \<and>
   fmlookup short_password_update ''temporaryPassword'' = Some (VStr ''abc'') \<and>
   length ''abc'' < 6 \<and>
   grants (contactSubmissions_update (stored accepted_doc) (write_of short_password_update))"
  by code_simp

text \<open>
  C7. The claim: with every other field meeting its constraints on an accepted
  submission, the update rule rejects \<open>linkedin\<close> set to \<^verbatim>\<open>https://example.com\<close> and
  accepts \<^verbatim>\<open>https://www.linkedin.com/in/jdoe\<close> and the empty string. As amended:
  under the same conditions, \<open>isValidOnboardingUpdate\<close> does not approve
  \<^verbatim>\<open>https://example.com\<close> and approves the other two, and the update rule accepts
  the write for each of the three values.
\<close>

theorem linkedin_examples:
  assumes "grants (isValidOnboardingUpdate (stored e) (write_of (fmdrop ''linkedin'' i)))"
  shows "\<not> grants (isValidOnboardingUpdate (stored e)
                     (write_of (fmupd ''linkedin'' (VStr ''https://example.com'') i))) \<and>
         grants (isValidOnboardingUpdate (stored e)
                   (write_of (fmupd ''linkedin'' (VStr ''https://www.linkedin.com/in/jdoe'') i))) \<and>
         grants (isValidOnboardingUpdate (stored e)
                   (write_of (fmupd ''linkedin'' (VStr []) i))) \<and>
         grants (contactSubmissions_update (stored e)
                   (write_of (fmupd ''linkedin'' (VStr ''https://example.com'') i))) \<and>
         grants (contactSubmissions_update (stored e)
                   (write_of (fmupd ''linkedin'' (VStr ''https://www.linkedin.com/in/jdoe'') i))) \<and>
         grants (contactSubmissions_update (stored e)
                   (write_of (fmupd ''linkedin'' (VStr []) i)))"
proof -
  let ?k = "''linkedin''"
  have k: "?k \<in> set allowedFields" "?k \<notin> {''name'', ''email'', ''status''}"
    by (simp_all add: allowedFields_def)
  from assms have base:
    "spec_password_ok (fmdrop ?k i)" "spec_profile_ok (fmdrop ?k i)"
    "spec_notification_ok (fmdrop ?k i)"
    unfolding onboarding_grants_iff by blast+
  then have rest:
    "spec_password_ok (fmupd ?k v i) \<and> spec_profile_ok (fmupd ?k v i) \<and>
     spec_notification_ok (fmupd ?k v i)" for v
    by (simp add: spec_password_ok_other spec_profile_ok_other
          spec_notification_ok_other)
  have upd: "grants (isValidOnboardingUpdate (stored e) (write_of (fmupd ?k (VStr s) i)))
               \<longleftrightarrow> s = [] \<or> rx_match (rx_parse ''https://.*linkedin.com/.*'') s
                    \<or> rx_match (rx_parse ''https://.*linkedin.com/in/.*'') s" for s
    unfolding onboarding_upd_iff [OF k assms] spec_linkedin_upd
    using rest [of "VStr s"] by blast
  have m1: "\<not> rx_match (rx_parse ''https://.*linkedin.com/.*'') ''https://example.com''"
    by code_simp
  have m2: "\<not> rx_match (rx_parse ''https://.*linkedin.com/in/.*'') ''https://example.com''"
    by code_simp
  have m3: "rx_match (rx_parse ''https://.*linkedin.com/.*'') ''https://www.linkedin.com/in/jdoe''"
    by code_simp
  have ne: "''https://example.com'' \<noteq> []"
    by simp
  have "\<not> grants (isValidOnboardingUpdate (stored e)
                     (write_of (fmupd ?k (VStr ''https://example.com'') i)))"
    unfolding upd using ne m1 m2 by blast
  moreover have "grants (isValidOnboardingUpdate (stored e)
                   (write_of (fmupd ?k (VStr ''https://www.linkedin.com/in/jdoe'') i)))"
    unfolding upd using m3 by blast
  moreover have "grants (isValidOnboardingUpdate (stored e)
                   (write_of (fmupd ?k (VStr []) i)))"
    unfolding upd by blast
  ultimately show ?thesis
    using status_kept [OF assms] by blast
qed

text \<open>The three values on a valid profile update.\<close>

theorem linkedin_examples_witness:
  "grants (isValidOnboardingUpdate (stored accepted_doc)
             (write_of (fmdrop ''linkedin'' profile_update))) \<and>
   \<not> grants (isValidOnboardingUpdate (stored accepted_doc)
               (write_of (fmupd ''linkedin'' (VStr ''https://example.com'') profile_update))) \<and>
   grants (isValidOnboardingUpdate (stored accepted_doc)
             (write_of (fmupd ''linkedin'' (VStr ''https://www.linkedin.com/in/jdoe'')
                          profile_update)))"
proof -
  have a: "grants (isValidOnboardingUpdate (stored accepted_doc)
                     (write_of (fmdrop ''linkedin'' profile_update)))"
    by code_simp
  show ?thesis
    using a linkedin_examples [OF a] by simp
qed

text \<open>
  The claim as stated fails: the update rule approves the valid profile update with
  \<open>linkedin\<close> set to \<^verbatim>\<open>https://example.com\<close>.
\<close>

theorem example_com_granted_counterexample:
  "grants (isValidOnboardingUpdate (stored accepted_doc)
             (write_of (fmdrop ''linkedin'' example_com_update))) \<and>
   fmlookup example_com_update ''linkedin'' = Some (VStr ''https://example.com'') \<and>
   grants (contactSubmissions_update (stored accepted_doc) (write_of example_com_update))"
  by code_simp

end
